theory Spec2Isabelle
  imports Main "HOL-Library.Word"
begin

section \<open>The data model of package model (model.go)\<close>

text \<open>
  model.go declares constants and struct types and no function. The constants are
  embedded as definitions, the structs the properties below talk about as records.
  A Go \<open>byte\<close> is an 8-bit word, so its arithmetic wraps at 256. Go's \<open>int\<close>,
  \<open>time.Duration\<close> and \<open>time.Time\<close> are embedded as \<open>int\<close>: nothing below
  depends on their width. A pointer is an \<open>option\<close> (\<open>None\<close> for nil), a Go map
  a partial function.
\<close>

type_synonym byte = "8 word"

subsection \<open>Constants (model.go, lines 21 to 50)\<close>

text \<open>
  \<open>RetryCount\<close> is an untyped Go constant; it is a natural number here. The struct
  field of the same name keeps the name \<open>RetryCount\<close>, so the constant carries a
  prefix.
\<close>

definition const_RetryCount :: nat where
  "const_RetryCount = 3"

definition LevelError :: byte where
  "LevelError = 0"

definition LevelWarn :: byte where
  "LevelWarn = 1"

definition LevelInfo :: byte where
  "LevelInfo = 2"

definition LevelDebug :: byte where
  "LevelDebug = 3"

definition TransportPackageTypeLog :: byte where
  "TransportPackageTypeLog = 0"

definition TransportPackageTypeHiPriLog :: byte where
  "TransportPackageTypeHiPriLog = 1"

definition TransportPackageTypeHealhcheck :: byte where
  "TransportPackageTypeHealhcheck = 2"

definition LogTypeLog :: byte where
  "LogTypeLog = 0"

definition LogTypeAudit :: byte where
  "LogTypeAudit = 1"

definition ContextTypeID :: string where
  "ContextTypeID = ''t''"

definition CorrelationIDField :: string where
  "CorrelationIDField = ''CorrelationID''"

definition DeliveryMethodClientSpecified :: byte where
  "DeliveryMethodClientSpecified = 0"

definition DeliveryMethodRoundRobin :: byte where
  "DeliveryMethodRoundRobin = 1"

subsection \<open>Structs (model.go, lines 52 to 198)\<close>

text \<open>A value of Go's empty interface, as far as the structs below hold one.\<close>

datatype iface = INil | IString string | IInt int | IBool bool

record CorrelationData =
  CorrelationID :: string
  Name :: string
  Custom :: "string \<rightharpoonup> iface"

text \<open>\<open>Error\<close> is Go's \<open>error\<close> interface: nil, or an error with its message.\<close>

record LogData =
  Timestamp :: int
  Level :: byte
  Type :: byte
  Weight :: int
  Message :: string
  Error :: "string option"
  ContextMap :: "iface list"
  CorrelationData :: "CorrelationData option"
  ContextMaps :: "string \<rightharpoonup> string list"

record LogGroup =
  CorrelationData :: "CorrelationData option"
  Logs :: "LogData option list"

text \<open>
  \<open>Data\<close> is an empty interface holding the package's reference to its domain
  object: nothing, a log group, or any other value.
\<close>

datatype package_data = NoData | GroupData LogGroup | OtherData iface

record TransportPackage =
  ID :: "64 word"
  Type :: byte
  Data :: package_data
  Payload :: "byte list"
  RetryCount :: byte

text \<open>
  The two server structs come before \<open>ClientConfig\<close>, unlike in the source: the
  structs share field names (\<open>Enabled\<close>, \<open>Level\<close>, \<open>ProjectID\<close>,
  \<open>CredentialsFilePath\<close>), and an unqualified field name stands for the record
  declared last.
\<close>

record ServerLoggingConfig =
  Group :: string
  Name :: string
  ProjectID :: string
  CredentialsFilePath :: string
  Level :: byte
  NumberOfWorkers :: int
  MessagesChannelSize :: int
  ShutdownTimeout :: int

record ServerLoggingConfigs =
  Enabled :: bool
  DefaultConfigGroupName :: string
  DefaultConfigName :: string
  DeliveryMethod :: byte
  Configs :: "ServerLoggingConfig option list"

record ClientConfig =
  Enabled :: bool
  AppName :: string
  Level :: byte
  Endpoint :: string
  NumberOfConnections :: int
  NumberOfHiPriConnections :: int
  NumberOfBackupConnections :: int
  NumberOfHiPriBackupConnections :: int
  ConnectionResetInterval :: int
  ChannelSize :: int
  OverflowChannelSize :: int
  OverflowChannelLoggingLevel :: byte
  HipriLoggingLevel :: byte
  HipriChannelSize :: int
  TargetMessageBatchSize :: int
  SendBatchLogsInterval :: int
  CommonLabels :: "string \<rightharpoonup> string"
  ServerConfigGroup :: string
  ServerConfigName :: string
  HealthCheckInterval :: int
  HealthCheckFailureThreshold :: int
  RequestTrackingTimout :: int
  ConnectionShutdownTimout :: int
  ProjectID :: string
  CredentialsFilePath :: string

subsection \<open>The struct declarations as data\<close>

text \<open>
  Which fields a struct declares is a fact about the declaration, not about a value
  of the type. To state it, the two declarations that matter are also written down as
  lists: each field's name with its Go type, in the order of the source.
\<close>

definition ClientConfig_fields :: "(string \<times> string) list" where
  "ClientConfig_fields =
    [(''Enabled'', ''bool''),
     (''AppName'', ''string''),
     (''Level'', ''byte''),
     (''Endpoint'', ''string''),
     (''NumberOfConnections'', ''int''),
     (''NumberOfHiPriConnections'', ''int''),
     (''NumberOfBackupConnections'', ''int''),
     (''NumberOfHiPriBackupConnections'', ''int''),
     (''ConnectionResetInterval'', ''time.Duration''),
     (''ChannelSize'', ''int''),
     (''OverflowChannelSize'', ''int''),
     (''OverflowChannelLoggingLevel'', ''byte''),
     (''HipriLoggingLevel'', ''byte''),
     (''HipriChannelSize'', ''int''),
     (''TargetMessageBatchSize'', ''int''),
     (''SendBatchLogsInterval'', ''time.Duration''),
     (''CommonLabels'', ''map[string]string''),
     (''ServerConfigGroup'', ''string''),
     (''ServerConfigName'', ''string''),
     (''HealthCheckInterval'', ''time.Duration''),
     (''HealthCheckFailureThreshold'', ''int''),
     (''RequestTrackingTimout'', ''int''),
     (''ConnectionShutdownTimout'', ''time.Duration''),
     (''ProjectID'', ''string''),
     (''CredentialsFilePath'', ''string'')]"


definition declares :: "(string \<times> string) list \<Rightarrow> string \<Rightarrow> bool" where
  "declares decl name = (name \<in> set (map fst decl))"

text \<open>
  Go exports an identifier, so that code of every package can read the field, when
  its first character is an upper-case letter; the field names here are ASCII.
\<close>

definition exported :: "string \<Rightarrow> bool" where
  "exported name =
    (case name of
       [] \<Rightarrow> False
     | c # _ \<Rightarrow> (65::nat) \<le> of_char c \<and> (of_char c :: nat) \<le> 90)"

subsection \<open>Operations of the language on the declared types\<close>

text \<open>
  A package written as a composite literal that leaves \<open>RetryCount\<close> out: the field
  has Go's zero value.
\<close>

definition new_package :: "64 word \<Rightarrow> byte \<Rightarrow> package_data \<Rightarrow> byte list \<Rightarrow> TransportPackage" where
  "new_package i t d b = \<lparr>ID = i, Type = t, Data = d, Payload = b, RetryCount = 0\<rparr>"

text \<open>Go's \<open>p.RetryCount++\<close> on the byte field: addition that wraps at 256.\<close>

definition incr_RetryCount :: "TransportPackage \<Rightarrow> TransportPackage" where
  "incr_RetryCount p = p\<lparr>RetryCount := RetryCount p + 1\<rparr>"

text \<open>The increment under the guard \<open>p.RetryCount < RetryCount\<close>.\<close>

definition incr_below_limit :: "TransportPackage \<Rightarrow> TransportPackage" where
  "incr_below_limit p =
    (if unat (RetryCount p) < const_RetryCount then incr_RetryCount p else p)"

subsection \<open>The log levels by name\<close>

text \<open>
  The four \<open>Level*\<close> constants by the level they stand for, and the usual order of
  severity of those levels: error above warn above info above debug.
\<close>

datatype level_name = ErrorLevel | WarnLevel | InfoLevel | DebugLevel

fun level_const :: "level_name \<Rightarrow> byte" where
  "level_const ErrorLevel = LevelError"
| "level_const WarnLevel = LevelWarn"
| "level_const InfoLevel = LevelInfo"
| "level_const DebugLevel = LevelDebug"

fun severity :: "level_name \<Rightarrow> nat" where
  "severity ErrorLevel = 3"
| "severity WarnLevel = 2"
| "severity InfoLevel = 1"
| "severity DebugLevel = 0"

definition more_severe :: "level_name \<Rightarrow> level_name \<Rightarrow> bool" where
  "more_severe a b = (severity b < severity a)"

text \<open>A test of the form \<open>level >= threshold\<close> on the byte values.\<close>

definition at_least_threshold :: "byte \<Rightarrow> byte \<Rightarrow> bool" where
  "at_least_threshold level threshold = (threshold \<le> level)"

subsection \<open>Fields by type\<close>


section \<open>The configuration boundary of the specification\<close>

text \<open>
  Modelled from the spec: the configuration that section 6 says is supplied at startup
  (enabled flag; app name; level; endpoint; connection counts per pool; reset interval;
  lane sizes; overflow/hi-pri thresholds; target batch size and interval; common
  labels; health-check interval and failure threshold; shutdown timeout), each item
  written as the \<open>ClientConfig\<close> field or fields that hold it. The list itself is not
  in the repository.
\<close>

definition config_boundary :: "string list" where
  "config_boundary =
    [''Enabled'', ''AppName'', ''Level'', ''Endpoint'',
     ''NumberOfConnections'', ''NumberOfHiPriConnections'',
     ''NumberOfBackupConnections'', ''NumberOfHiPriBackupConnections'',
     ''ConnectionResetInterval'',
     ''ChannelSize'', ''HipriChannelSize'', ''OverflowChannelSize'',
     ''OverflowChannelLoggingLevel'', ''HipriLoggingLevel'',
     ''TargetMessageBatchSize'', ''SendBatchLogsInterval'',
     ''CommonLabels'',
     ''HealthCheckInterval'', ''HealthCheckFailureThreshold'',
     ''ConnectionShutdownTimout'']"

definition in_boundary :: "string \<Rightarrow> bool" where
  "in_boundary name = (name \<in> set config_boundary)"

definition beyond_boundary :: "string list" where
  "beyond_boundary = filter (\<lambda>n. \<not> in_boundary n) (map fst ClientConfig_fields)"

section \<open>The Dispatcher's retry of one package\<close>

text \<open>
  model.go holds no Dispatcher: only the \<open>TransportPackage\<close> it sends, the constant
  \<open>RetryCount\<close> and the configuration. What the Dispatcher does with one package is
  modelled here from sections 3, 4.5, 4.6 and 7 of the specification, as the bounded
  state transition its design notes ask for: a state with the package, the sends made
  so far and a terminal outcome, and one step per send. The steps of one package run
  one after the other; what other tasks do to the pool in between is not modelled.
  Backup promotion, the overflow marker and the degraded mode that follows
  \<open>ErrorNoHealthyConnection\<close> belong to other components and are left out.
\<close>

text \<open>Modelled from the spec: the three lanes of section 2.\<close>

datatype lane = NormalLane | HiPriLane | OverflowLane

text \<open>Modelled from the spec: the three connection sets of section 4.5.\<close>

datatype pool = NormalPool | HiPriPool | BackupPool

text \<open>Modelled from the spec: the health states of a connection (section 3).\<close>

datatype health = Healthy | Suspect | Unhealthy

text \<open>Modelled from the spec: the error kinds of section 7.\<close>

datatype error_kind =
  ErrorBufferFull | ErrorNoHealthyConnection | ErrorSendFailed
  | ErrorRetriesExhausted | ErrorHealthCheckTimeout

text \<open>
  Modelled from the spec: the Connection entity of section 3 (identity, pool
  membership, health state, consecutive-failure count, last-reset and
  last-healthcheck timestamps). The repository declares no such type.
\<close>

record Connection =
  identity :: nat
  membership :: pool
  health_state :: health
  failure_count :: nat
  last_reset :: int
  last_healthcheck :: int

text \<open>
  Modelled from the spec: the target pool of a lane (section 4.6: normal to the
  normal pool, hiPri to the hi-pri pool, overflow to the normal pool).
\<close>

fun target_pool :: "lane \<Rightarrow> pool" where
  "target_pool NormalLane = NormalPool"
| "target_pool HiPriLane = HiPriPool"
| "target_pool OverflowLane = NormalPool"

text \<open>
  Modelled from the spec: the package type of a lane's packages (section 3: log or
  hi-pri log), with the constants of model.go.
\<close>

fun package_type :: "lane \<Rightarrow> byte" where
  "package_type NormalLane = TransportPackageTypeLog"
| "package_type HiPriLane = TransportPackageTypeHiPriLog"
| "package_type OverflowLane = TransportPackageTypeLog"

text \<open>Modelled from the spec: the Healthy connections of a pool, in pool order.\<close>

definition healthy_in :: "pool \<Rightarrow> Connection list \<Rightarrow> Connection list" where
  "healthy_in p cs = filter (\<lambda>c. membership c = p \<and> health_state c = Healthy) cs"

text \<open>
  Modelled from the spec: connection selection (section 4.5), round-robin among the
  Healthy connections of the target pool; none when the pool has no Healthy
  connection.
\<close>

definition select_connection :: "pool \<Rightarrow> nat \<Rightarrow> Connection list \<Rightarrow> Connection option" where
  "select_connection p cur cs =
    (let hs = healthy_in p cs in
     if hs = [] then None else Some (hs ! (cur mod length hs)))"

text \<open>
  Modelled from the spec: a failure counted against a connection (section 4.5). The
  failure count goes up by one, and a count that reaches
  \<open>HealthCheckFailureThreshold\<close> makes the connection Unhealthy.
\<close>

definition record_failure :: "ClientConfig \<Rightarrow> Connection \<Rightarrow> Connection" where
  "record_failure cfg c =
    (let n = failure_count c + 1 in
     c\<lparr>failure_count := n,
       health_state :=
         (if HealthCheckFailureThreshold cfg \<le> int n then Unhealthy else health_state c)\<rparr>)"

definition charge_failure :: "ClientConfig \<Rightarrow> Connection \<Rightarrow> Connection list \<Rightarrow> Connection list" where
  "charge_failure cfg c cs =
    map (\<lambda>x. if identity x = identity c then record_failure cfg x else x) cs"

text \<open>
  Modelled from the spec: the outcome of a package, in flight until it is delivered or
  fails for good.
\<close>

datatype delivery = InFlight | Delivered | Failed error_kind

text \<open>
  Modelled from the spec: the Dispatcher's state while it handles one package. It
  holds the shared configuration, the pool as the Connection Pool Manager left it, the
  round-robin cursor, the package's target pool, the package, its outcome, the
  connection of every send made so far (oldest first) and the counters of dropped
  packages by error kind.
\<close>

record dispatch =
  config :: ClientConfig
  connections :: "Connection list"
  cursor :: nat
  target :: pool
  package :: TransportPackage
  delivery :: delivery
  sends :: "Connection list"
  counted :: "error_kind \<Rightarrow> nat"

text \<open>
  Modelled from the spec: the Dispatcher creates the package immediately before the
  first send (section 3). Sequence id, domain object and payload come from outside.
\<close>

definition start ::
  "ClientConfig \<Rightarrow> Connection list \<Rightarrow> nat \<Rightarrow> (error_kind \<Rightarrow> nat) \<Rightarrow> lane
     \<Rightarrow> 64 word \<Rightarrow> package_data \<Rightarrow> byte list \<Rightarrow> dispatch" where
  "start cfg cs cur cnt ln i d b =
    \<lparr>config = cfg, connections = cs, cursor = cur, target = target_pool ln,
     package = new_package i (package_type ln) d b, delivery = InFlight,
     sends = [], counted = cnt\<rparr>"

text \<open>
  Modelled from the spec: one send of the package, with the result the connection
  reports (section 4.6). The Dispatcher obtains a Healthy connection of the target
  pool and fails fast with \<open>ErrorNoHealthyConnection\<close> when there is none. On a
  failed send it increments the package's retry counter; while the counter is below
  \<open>RetryCount\<close> the package stays in flight, re-queued for the next send; otherwise
  the package is dropped and counted, and the failure is counted against the
  connection. A package that is no longer in flight is not sent again.
\<close>

definition attempt :: "bool \<Rightarrow> dispatch \<Rightarrow> dispatch" where
  "attempt ok s =
    (case delivery s of
       InFlight \<Rightarrow>
         (case select_connection (target s) (cursor s) (connections s) of
            None \<Rightarrow> s\<lparr>delivery := Failed ErrorNoHealthyConnection\<rparr>
          | Some c \<Rightarrow>
              let s1 = s\<lparr>cursor := cursor s + 1, sends := sends s @ [c]\<rparr> in
              if ok then s1\<lparr>delivery := Delivered\<rparr>
              else
                let p = incr_RetryCount (package s) in
                if unat (RetryCount p) < const_RetryCount
                then s1\<lparr>package := p\<rparr>
                else s1\<lparr>package := p,
                        delivery := Failed ErrorRetriesExhausted,
                        counted := (counted s)(ErrorRetriesExhausted :=
                                      counted s ErrorRetriesExhausted + 1),
                        connections := charge_failure (config s) c (connections s)\<rparr>)
     | _ \<Rightarrow> s)"

text \<open>
  Modelled from the spec: the sends of one package, one per reported result; a result
  that arrives after the package has left flight changes nothing.
\<close>

fun run :: "bool list \<Rightarrow> dispatch \<Rightarrow> dispatch" where
  "run [] s = s"
| "run (ok # oks) s = run oks (attempt ok s)"



subsection \<open>A sample pool and configuration\<close>

definition sample_config :: ClientConfig where
  "sample_config =
    \<lparr>Enabled = True, AppName = ''app'', Level = LevelDebug, Endpoint = ''localhost:9000'',
     NumberOfConnections = 2, NumberOfHiPriConnections = 1,
     NumberOfBackupConnections = 0, NumberOfHiPriBackupConnections = 0,
     ConnectionResetInterval = 60, ChannelSize = 2, OverflowChannelSize = 2,
     OverflowChannelLoggingLevel = LevelWarn, HipriLoggingLevel = LevelError,
     HipriChannelSize = 2, TargetMessageBatchSize = 1, SendBatchLogsInterval = 1,
     CommonLabels = Map.empty, ServerConfigGroup = ''g'', ServerConfigName = ''n'',
     HealthCheckInterval = 5, HealthCheckFailureThreshold = 2,
     RequestTrackingTimout = 0, ConnectionShutdownTimout = 10,
     ProjectID = ''p'', CredentialsFilePath = ''/etc/creds.json''\<rparr>"

definition sample_pool :: "Connection list" where
  "sample_pool =
    [\<lparr>identity = 1, membership = NormalPool, health_state = Healthy, failure_count = 0,
      last_reset = 0, last_healthcheck = 0\<rparr>,
     \<lparr>identity = 2, membership = NormalPool, health_state = Healthy, failure_count = 1,
      last_reset = 0, last_healthcheck = 0\<rparr>,
     \<lparr>identity = 3, membership = HiPriPool, health_state = Healthy, failure_count = 0,
      last_reset = 0, last_healthcheck = 0\<rparr>]"

definition sample_start :: dispatch where
  "sample_start = start sample_config sample_pool 0 (\<lambda>_. 0) NormalLane 5 NoData []"

section \<open>Properties of the constants and of the retry counter\<close>

lemma level_const_values:
  "level_const ErrorLevel = 0" "level_const WarnLevel = 1"
  "level_const InfoLevel = 2" "level_const DebugLevel = 3"
  by (simp_all add: LevelError_def LevelWarn_def LevelInfo_def LevelDebug_def)

lemma more_severe_iff_less: "more_severe a b = (level_const a < level_const b)"
  by (cases a; cases b) (simp_all add: more_severe_def level_const_values word_less_nat_alt del: level_const.simps)

lemma at_least_threshold_iff:
  "at_least_threshold (level_const l) (level_const t) = (severity l \<le> severity t)"
  by (cases l; cases t) (simp_all add: at_least_threshold_def level_const_values word_le_nat_alt del: level_const.simps)

text \<open>
  C8. The level constants give the more severe level the smaller byte: error is 0,
  warn 1, info 2, debug 3. So one level is more severe than another exactly when its
  constant is the smaller number, and a test \<open>level >= threshold\<close> lets through
  exactly the levels that are as severe as the threshold or less severe, never a more
  severe one.
\<close>

theorem level_constants_order_severity:
  "LevelError = 0 \<and> LevelWarn = 1 \<and> LevelInfo = 2 \<and> LevelDebug = 3
   \<and> (\<forall>a b. more_severe a b = (level_const a < level_const b))
   \<and> (\<forall>l t. at_least_threshold (level_const l) (level_const t) = (severity l \<le> severity t))
   \<and> (\<forall>l t. at_least_threshold (level_const l) (level_const t) = (\<not> more_severe l t))"
proof -
  have vals: "LevelError = 0 \<and> LevelWarn = 1 \<and> LevelInfo = 2 \<and> LevelDebug = 3"
    by (simp add: LevelError_def LevelWarn_def LevelInfo_def LevelDebug_def)
  have not_more: "at_least_threshold (level_const l) (level_const t) = (\<not> more_severe l t)" for l t
    by (simp add: at_least_threshold_iff more_severe_def not_less)
  from vals more_severe_iff_less at_least_threshold_iff not_more show ?thesis
    by blast
qed

lemma incr_RetryCount_unat:
  "unat (RetryCount (incr_RetryCount p)) = (unat (RetryCount p) + 1) mod 256"
  by (simp add: incr_RetryCount_def unat_word_ariths)

lemma incr_RetryCount_below:
  "unat (RetryCount p) < 3 \<Longrightarrow> unat (RetryCount (incr_RetryCount p)) = unat (RetryCount p) + 1"
  by (simp add: incr_RetryCount_unat)

lemma incr_below_limit_unat:
  "unat (RetryCount (incr_below_limit p)) =
     (if unat (RetryCount p) < 3 then unat (RetryCount p) + 1 else unat (RetryCount p))"
  by (simp add: incr_below_limit_def const_RetryCount_def incr_RetryCount_unat)

lemma incr_below_limit_iter:
  "unat (RetryCount p) \<le> 3 \<Longrightarrow>
   unat (RetryCount ((incr_below_limit ^^ n) p)) = min (unat (RetryCount p) + n) 3"
  by (induction n) (auto simp: incr_below_limit_unat)

text \<open>
  C9. The \<open>RetryCount\<close> field is a byte, so an increment is addition modulo 256: it
  takes 255 to 0. A counter that is incremented only while it is strictly below the
  constant \<open>RetryCount\<close> = 3 does not wrap: each such increment adds exactly one and
  stays at or below 3, the guarded increment never lowers a counter, and a counter
  that starts at zero holds min n 3 after n guarded increments, so it stays in 0..3.
\<close>

theorem retry_counter_byte_no_wrap:
  "unat (RetryCount (incr_RetryCount p)) = (unat (RetryCount p) + 1) mod 256
   \<and> RetryCount (incr_RetryCount (p\<lparr>RetryCount := 255\<rparr>)) = 0
   \<and> (unat (RetryCount p) < const_RetryCount \<longrightarrow>
        unat (RetryCount (incr_RetryCount p)) = unat (RetryCount p) + 1
        \<and> unat (RetryCount (incr_RetryCount p)) \<le> const_RetryCount)
   \<and> unat (RetryCount p) \<le> unat (RetryCount (incr_below_limit p))
   \<and> unat (RetryCount ((incr_below_limit ^^ n) (new_package i t d b))) = min n const_RetryCount
   \<and> const_RetryCount = 3"
proof -
  have wrap: "RetryCount (incr_RetryCount (p\<lparr>RetryCount := 255\<rparr>)) = 0"
    by (simp add: incr_RetryCount_def)
  have below: "unat (RetryCount p) < const_RetryCount \<longrightarrow>
        unat (RetryCount (incr_RetryCount p)) = unat (RetryCount p) + 1
        \<and> unat (RetryCount (incr_RetryCount p)) \<le> const_RetryCount"
    by (simp add: incr_RetryCount_unat const_RetryCount_def)
  have mono: "unat (RetryCount p) \<le> unat (RetryCount (incr_below_limit p))"
    by (simp add: incr_below_limit_unat)
  have fresh: "unat (RetryCount (new_package i t d b)) = 0"
    by (simp add: new_package_def)
  have iter: "unat (RetryCount ((incr_below_limit ^^ n) (new_package i t d b))) = min n const_RetryCount"
    using incr_below_limit_iter [of "new_package i t d b" n] fresh
    by (simp add: const_RetryCount_def)
  from incr_RetryCount_unat wrap below mono iter show ?thesis
    by (simp add: const_RetryCount_def)
qed

theorem retry_counter_byte_no_wrap_witness:
  "unat (RetryCount (new_package 7 0 NoData [])) < const_RetryCount
   \<and> unat (RetryCount (incr_RetryCount (new_package 7 0 NoData []))) = 1
   \<and> unat (RetryCount ((incr_below_limit ^^ 5) (new_package 7 0 NoData []))) = 3"
  using retry_counter_byte_no_wrap [of "new_package 7 0 NoData []" 5 7 0 NoData "[]"]
  by (simp add: new_package_def const_RetryCount_def)

section \<open>Properties of the ClientConfig declaration\<close>

lemma beyond_boundary_eq:
  "beyond_boundary =
     [''ServerConfigGroup'', ''ServerConfigName'', ''RequestTrackingTimout'',
      ''ProjectID'', ''CredentialsFilePath'']"
  by (simp add: beyond_boundary_def in_boundary_def config_boundary_def ClientConfig_fields_def)

lemma all_ClientConfig_fields_exported: "list_all exported (map fst ClientConfig_fields)"
  by (simp add: ClientConfig_fields_def exported_def)

text \<open>
  C10. \<open>ClientConfig\<close> declares \<open>ServerConfigGroup\<close>, \<open>RequestTrackingTimout\<close>,
  \<open>ProjectID\<close> and \<open>CredentialsFilePath\<close>, none of which is in the configuration
  boundary the specification lists (the fields outside that boundary are these four
  and \<open>ServerConfigName\<close>). All fields of the struct are exported, so whoever holds
  the configuration can read them: a configuration loaded with a credentials file
  path, a project id, a request tracking timeout and a server config group gives
  each of them back.
\<close>

theorem ClientConfig_exposes_fields_beyond_boundary:
  "list_all (declares ClientConfig_fields)
      [''ServerConfigGroup'', ''RequestTrackingTimout'', ''ProjectID'', ''CredentialsFilePath'']
   \<and> \<not> in_boundary ''ServerConfigGroup'' \<and> \<not> in_boundary ''RequestTrackingTimout''
   \<and> \<not> in_boundary ''ProjectID'' \<and> \<not> in_boundary ''CredentialsFilePath''
   \<and> beyond_boundary =
      [''ServerConfigGroup'', ''ServerConfigName'', ''RequestTrackingTimout'',
       ''ProjectID'', ''CredentialsFilePath'']
   \<and> list_all exported (map fst ClientConfig_fields)
   \<and> ServerConfigGroup (cfg\<lparr>ServerConfigGroup := g\<rparr>) = g
   \<and> RequestTrackingTimout (cfg\<lparr>RequestTrackingTimout := t\<rparr>) = t
   \<and> ProjectID (cfg\<lparr>ProjectID := p\<rparr>) = p
   \<and> CredentialsFilePath (cfg\<lparr>CredentialsFilePath := c\<rparr>) = c"
proof -
  have decl: "list_all (declares ClientConfig_fields)
      [''ServerConfigGroup'', ''RequestTrackingTimout'', ''ProjectID'', ''CredentialsFilePath'']"
    by (simp add: declares_def ClientConfig_fields_def)
  have out: "\<not> in_boundary ''ServerConfigGroup'' \<and> \<not> in_boundary ''RequestTrackingTimout''
      \<and> \<not> in_boundary ''ProjectID'' \<and> \<not> in_boundary ''CredentialsFilePath''"
    by (simp add: in_boundary_def config_boundary_def)
  from decl out beyond_boundary_eq all_ClientConfig_fields_exported show ?thesis
    by simp
qed





section \<open>Properties of the Dispatcher's retry\<close>



lemma attempt_counter_bound:
  assumes "unat (RetryCount (package s)) \<le> 3"
    and "delivery s = InFlight \<longrightarrow> unat (RetryCount (package s)) < 3"
  shows "unat (RetryCount (package (attempt ok s))) \<le> 3
    \<and> (delivery (attempt ok s) = InFlight \<longrightarrow> unat (RetryCount (package (attempt ok s))) < 3)"
  using assms
  by (auto simp: attempt_def Let_def const_RetryCount_def incr_RetryCount_below
           split: delivery.splits option.splits)

lemma run_counter_bound:
  assumes "unat (RetryCount (package s)) \<le> 3"
    and "delivery s = InFlight \<longrightarrow> unat (RetryCount (package s)) < 3"
  shows "unat (RetryCount (package (run oks s))) \<le> 3"
  using assms
proof (induction oks arbitrary: s)
  case Nil
  then show ?case by simp
next
  case (Cons ok oks)
  from attempt_counter_bound [OF Cons.prems, of ok] Cons.IH [of "attempt ok s"]
  show ?case by simp
qed

text \<open>
  C2. The constant \<open>RetryCount\<close> is 3, and the retry counter of a package never
  exceeds it: whatever results its sends report, and however many, the counter of the
  package the Dispatcher created is at most \<open>RetryCount\<close> after each of them.
\<close>

theorem retry_counter_never_exceeds_RetryCount:
  "unat (RetryCount (package (run oks (start cfg cs cur cnt ln i d b)))) \<le> const_RetryCount
   \<and> const_RetryCount = 3"
proof -
  have "unat (RetryCount (package (start cfg cs cur cnt ln i d b))) = 0"
    by (simp add: start_def new_package_def)
  then have "unat (RetryCount (package (run oks (start cfg cs cur cnt ln i d b)))) \<le> 3"
    by (intro run_counter_bound) simp_all
  then show ?thesis by (simp add: const_RetryCount_def)
qed










lemma sample_failing_run:
  "map identity (sends (run [False, False, False, False] sample_start)) = [1, 2, 1]
   \<and> map failure_count (connections (run [False, False, False, False] sample_start)) = [1, 1, 0]"
  by (simp add: sample_start_def sample_pool_def start_def attempt_def select_connection_def
        healthy_in_def new_package_def incr_RetryCount_def const_RetryCount_def Let_def
        charge_failure_def record_failure_def)

end
